theory Spec2Isabelle
  imports Complex_Main
begin

section \<open>Scalars\<close>

text \<open>
  The arrays of the program hold floating-point numbers. They are modelled by exact
  reals extended with the two infinities and NaN: rounding is idealised away, while the
  special values that the attention mask and softmax rely on behave as in IEEE 754
  (signed zeros are not distinguished).
\<close>

datatype fp = Fin real | PInf | NInf | NaN

fun fin :: "fp \<Rightarrow> bool" where
  "fin (Fin a) = True"
| "fin _ = False"

fun val :: "fp \<Rightarrow> real" where
  "val (Fin a) = a"
| "val _ = 0"

instantiation fp :: "{zero, one, plus, times, uminus, minus, inverse}"
begin

definition zero_fp :: fp where
  "zero_fp = Fin 0"

definition one_fp :: fp where
  "one_fp = Fin 1"

fun plus_fp :: "fp \<Rightarrow> fp \<Rightarrow> fp" where
  "plus_fp (Fin a) (Fin b) = Fin (a + b)"
| "plus_fp NaN _ = NaN"
| "plus_fp _ NaN = NaN"
| "plus_fp PInf NInf = NaN"
| "plus_fp NInf PInf = NaN"
| "plus_fp PInf _ = PInf"
| "plus_fp _ PInf = PInf"
| "plus_fp NInf _ = NInf"
| "plus_fp _ NInf = NInf"

fun times_fp :: "fp \<Rightarrow> fp \<Rightarrow> fp" where
  "times_fp (Fin a) (Fin b) = Fin (a * b)"
| "times_fp NaN _ = NaN"
| "times_fp _ NaN = NaN"
| "times_fp PInf (Fin b) = (if b = 0 then NaN else if 0 < b then PInf else NInf)"
| "times_fp NInf (Fin b) = (if b = 0 then NaN else if 0 < b then NInf else PInf)"
| "times_fp (Fin a) PInf = (if a = 0 then NaN else if 0 < a then PInf else NInf)"
| "times_fp (Fin a) NInf = (if a = 0 then NaN else if 0 < a then NInf else PInf)"
| "times_fp PInf PInf = PInf"
| "times_fp NInf NInf = PInf"
| "times_fp PInf NInf = NInf"
| "times_fp NInf PInf = NInf"

fun uminus_fp :: "fp \<Rightarrow> fp" where
  "uminus_fp (Fin a) = Fin (- a)"
| "uminus_fp PInf = NInf"
| "uminus_fp NInf = PInf"
| "uminus_fp NaN = NaN"

definition minus_fp :: "fp \<Rightarrow> fp \<Rightarrow> fp" where
  "minus_fp a b = a + (- b)"

fun inverse_fp :: "fp \<Rightarrow> fp" where
  "inverse_fp (Fin a) = (if a = 0 then PInf else Fin (1 / a))"
| "inverse_fp PInf = Fin 0"
| "inverse_fp NInf = Fin 0"
| "inverse_fp NaN = NaN"

definition divide_fp :: "fp \<Rightarrow> fp \<Rightarrow> fp" where
  "divide_fp a b = a * inverse b"

instance ..

end

text \<open>\<open>jnp.exp\<close>, \<open>jnp.maximum\<close> (NaN propagates), \<open>lax.rsqrt\<close> and
  \<open>jax.nn.sigmoid\<close> on the extended values.\<close>

fun fp_exp :: "fp \<Rightarrow> fp" where
  "fp_exp (Fin a) = Fin (exp a)"
| "fp_exp PInf = PInf"
| "fp_exp NInf = Fin 0"
| "fp_exp NaN = NaN"

fun fp_max :: "fp \<Rightarrow> fp \<Rightarrow> fp" where
  "fp_max (Fin a) (Fin b) = Fin (max a b)"
| "fp_max NaN _ = NaN"
| "fp_max _ NaN = NaN"
| "fp_max PInf _ = PInf"
| "fp_max _ PInf = PInf"
| "fp_max NInf b = b"
| "fp_max a NInf = a"

fun fp_rsqrt :: "fp \<Rightarrow> fp" where
  "fp_rsqrt (Fin a) = (if a = 0 then PInf else if 0 < a then Fin (1 / sqrt a) else NaN)"
| "fp_rsqrt PInf = Fin 0"
| "fp_rsqrt NInf = NaN"
| "fp_rsqrt NaN = NaN"

fun sigmoid :: "fp \<Rightarrow> fp" where
  "sigmoid (Fin a) = Fin (1 / (1 + exp (- a)))"
| "sigmoid PInf = Fin 1"
| "sigmoid NInf = Fin 0"
| "sigmoid NaN = NaN"

text \<open>\<open>jax.nn.silu\<close>: \<open>x * sigmoid(x)\<close>.\<close>

definition silu :: "fp \<Rightarrow> fp" where
  "silu x = x * sigmoid x"

section \<open>Arrays\<close>

text \<open>
  An array of rank n is a list nested n deep, outermost axis first. Where an operation
  of the program takes a size from the shape of an array or from the module, the model
  passes that size explicitly. The operations are total: on operands whose shapes do not
  fit, where JAX raises, they truncate to the shorter operand, and the theorems below say
  which shapes they assume.
\<close>

type_synonym vec = "fp list"
type_synonym mat = "fp list list"
type_synonym t3 = "fp list list list"
type_synonym t4 = "fp list list list list"

definition fsum :: "vec \<Rightarrow> fp" where
  "fsum xs = foldr (+) xs 0"

definition dot :: "vec \<Rightarrow> vec \<Rightarrow> fp" where
  "dot xs ys = fsum (map2 (*) xs ys)"

definition column :: "'a list list \<Rightarrow> nat \<Rightarrow> 'a list" where
  "column M j = map (\<lambda>r. r ! j) M"

text \<open>\<open>swapaxes(-1, -2)\<close> of a matrix with \<open>n\<close> columns.\<close>

definition swapaxes :: "nat \<Rightarrow> 'a list list \<Rightarrow> 'a list list" where
  "swapaxes n M = map (column M) [0..<n]"

text \<open>Row vector times a matrix with \<open>n\<close> columns.\<close>

definition vecmat :: "nat \<Rightarrow> vec \<Rightarrow> mat \<Rightarrow> vec" where
  "vecmat n v M = map (\<lambda>j. dot v (column M j)) [0..<n]"

text \<open>\<open>jnp.matmul\<close> on the last two axes; \<open>n\<close> is the number of columns of the right
  operand.\<close>

definition matmul :: "nat \<Rightarrow> mat \<Rightarrow> mat \<Rightarrow> mat" where
  "matmul n A M = map (\<lambda>r. vecmat n r M) A"

text \<open>Elementwise sum of two arrays of rank 3 and of equal shape.\<close>

definition tadd :: "t3 \<Rightarrow> t3 \<Rightarrow> t3" where
  "tadd x y = map2 (map2 (map2 (+))) x y"

subsection \<open>Library layers\<close>

text \<open>\<open>nnx.Linear\<close> without bias: the kernel has \<open>in_features\<close> rows and
  \<open>out_features\<close> columns and contracts the last axis of the input.\<close>

record linear =
  in_features :: nat
  out_features :: nat
  kernel :: mat

definition Linear_call :: "linear \<Rightarrow> t3 \<Rightarrow> t3" where
  "Linear_call lin x = map (map (\<lambda>v. vecmat (out_features lin) v (kernel lin))) x"

text \<open>\<open>nnx.RMSNorm\<close> over the last axis: no mean is subtracted, the mean of the squares
  plus \<open>epsilon\<close> goes through \<open>rsqrt\<close>, and the result is multiplied by the learned
  per-feature \<open>scale\<close>.\<close>

record rmsnorm =
  num_features :: nat
  epsilon :: fp
  scale :: vec

definition rms_row :: "rmsnorm \<Rightarrow> vec \<Rightarrow> vec" where
  "rms_row n r =
     (let var = fsum (map (\<lambda>a. a * a) r) / Fin (real (length r));
          mul = fp_rsqrt (var + epsilon n)
      in map2 (\<lambda>a s. a * (mul * s)) r (scale n))"

definition RMSNorm_call :: "rmsnorm \<Rightarrow> t3 \<Rightarrow> t3" where
  "RMSNorm_call n x = map (map (rms_row n)) x"

definition RMSNorm_call4 :: "rmsnorm \<Rightarrow> t4 \<Rightarrow> t4" where
  "RMSNorm_call4 n x = map (map (map (rms_row n))) x"

text \<open>\<open>nnx.Embed\<close>. The lookup is \<open>jnp.take(embedding, inputs, axis=0)\<close> in its default
  mode: a negative index counts from the end, and an index outside the table gives a row
  of NaN. A table of one row is special-cased by the library: index 0 gives the row, any
  other index NaN. \<open>attend\<close> is \<open>jnp.dot(query, embedding.T)\<close>.\<close>

record embed =
  num_embeddings :: nat
  features :: nat
  embedding :: mat

definition embed_row :: "embed \<Rightarrow> int \<Rightarrow> vec" where
  "embed_row e i =
     (if num_embeddings e = 1 then (if i = 0 then embedding e ! 0 else replicate (features e) NaN)
      else (let n = int (num_embeddings e); j = (if i < 0 then i + n else i)
            in if 0 \<le> j \<and> j < n then embedding e ! nat j else replicate (features e) NaN))"

definition Embed_call :: "embed \<Rightarrow> int list list \<Rightarrow> t3" where
  "Embed_call e input_ids = map (map (embed_row e)) input_ids"

definition Embed_attend :: "embed \<Rightarrow> t3 \<Rightarrow> t3" where
  "Embed_attend e query =
     map (map (\<lambda>v. vecmat (num_embeddings e) v (swapaxes (features e) (embedding e)))) query"

subsection \<open>Python errors\<close>

datatype error = ZeroDivisionError | IndexError | AttributeError

text \<open>\<open>a // b\<close> and \<open>h ** -0.5\<close> on non-negative integers: both raise ZeroDivisionError
  at zero.\<close>

definition floordiv :: "nat \<Rightarrow> nat \<Rightarrow> error + nat" where
  "floordiv a b = (if b = 0 then Inl ZeroDivisionError else Inr (a div b))"

definition pow_neg_half :: "nat \<Rightarrow> error + fp" where
  "pow_neg_half h = (if h = 0 then Inl ZeroDivisionError else Inr (Fin (1 / sqrt (real h))))"

subsection \<open>Configuration\<close>

text \<open>The attributes of the configuration object that the two models read. Sizes and
  counts are natural numbers.\<close>

record config =
  hidden_size :: nat
  num_attention_heads :: nat
  num_key_value_heads :: nat
  head_dim :: nat
  intermediate_size :: nat
  num_hidden_layers :: nat
  vocab_size :: nat
  rms_norm_eps :: real
  partial_rotary_factor :: real
  tie_word_embeddings :: bool

text \<open>\<open>rngs\<close> supplies the initial value of every parameter; the model takes it as the
  function that gives the initial matrix for a shape.\<close>

type_synonym rngs = "nat \<Rightarrow> nat \<Rightarrow> mat"

definition Linear_init :: "nat \<Rightarrow> nat \<Rightarrow> rngs \<Rightarrow> linear" where
  "Linear_init i out rngs = \<lparr>in_features = i, out_features = out, kernel = rngs i out\<rparr>"

definition RMSNorm_init :: "nat \<Rightarrow> real \<Rightarrow> rmsnorm" where
  "RMSNorm_init n eps = \<lparr>num_features = n, epsilon = Fin eps, scale = replicate n 1\<rparr>"

definition Embed_init :: "nat \<Rightarrow> nat \<Rightarrow> rngs \<Rightarrow> embed" where
  "Embed_init n f rngs = \<lparr>num_embeddings = n, features = f, embedding = rngs n f\<rparr>"

section \<open>Rotary encoding and the key/value cache\<close>

text \<open>
  Modelled from the spec: \<open>apply_rope\<close> of \<open>nnxlm/utils.py\<close>, which is not among the
  sources. The rotary table is the pair (cosine, sine), each indexed by position and
  rotary dimension and shared by all batch elements and heads. Of every query and key
  vector the leading \<open>rot_dims\<close> entries are split into two halves \<open>x1\<close>, \<open>x2\<close> and
  become \<open>x1*cos - x2*sin\<close> followed by \<open>x2*cos + x1*sin\<close>; the remaining entries pass
  through unchanged.
\<close>

type_synonym rope = "mat \<times> mat"

definition rotate_vec :: "nat \<Rightarrow> vec \<times> vec \<Rightarrow> vec \<Rightarrow> vec" where
  "rotate_vec rot_dims cs x =
     (let x1 = take (rot_dims div 2) (take rot_dims x);
          x2 = drop (rot_dims div 2) (take rot_dims x)
      in map2 (\<lambda>(a, b) (c, s). a * c - b * s) (zip x1 x2) (zip (fst cs) (snd cs))
       @ map2 (\<lambda>(a, b) (c, s). b * c + a * s) (zip x1 x2) (zip (fst cs) (snd cs))
       @ drop rot_dims x)"

definition rope_t4 :: "nat \<Rightarrow> rope \<Rightarrow> t4 \<Rightarrow> t4" where
  "rope_t4 rot_dims r x = map (map (\<lambda>h. map2 (rotate_vec rot_dims) (zip (fst r) (snd r)) h)) x"

definition apply_rope :: "t4 \<Rightarrow> t4 \<Rightarrow> rope \<Rightarrow> nat \<Rightarrow> t4 \<times> t4" where
  "apply_rope q k r rot_dims = (rope_t4 rot_dims r q, rope_t4 rot_dims r k)"

text \<open>
  Modelled from the spec: the per-layer cache entry, whose class is not among the
  sources. It holds the accumulated keys and values, of shape
  (batch, kv heads, seen length, head dim); a call appends the new keys and values along
  the sequence axis, earliest position first, and returns the whole history.
\<close>

record kvcache =
  cache_k :: t4
  cache_v :: t4

definition cat_seq :: "t4 \<Rightarrow> t4 \<Rightarrow> t4" where
  "cat_seq old new = map2 (map2 (@)) old new"

definition KVCache_call :: "kvcache \<Rightarrow> t4 \<Rightarrow> t4 \<Rightarrow> (t4 \<times> t4) \<times> kvcache" where
  "KVCache_call c k v =
     (let ks = cat_seq (cache_k c) k; vs = cat_seq (cache_v c) v
      in ((ks, vs), \<lparr>cache_k = ks, cache_v = vs\<rparr>))"


section \<open>Attention\<close>

subsection \<open>The steps shared by the two variants\<close>

text \<open>\<open>x.shape[1]\<close>.\<close>

definition seq_len :: "'a list list \<Rightarrow> nat" where
  "seq_len x = (case x of [] \<Rightarrow> 0 | r # _ \<Rightarrow> length r)"

text \<open>\<open>reshape(B, L, H, D)\<close> of an array of shape (B, L, H*D), and
  \<open>jnp.transpose(_, (0, 2, 1, 3))\<close> of an array whose axis 2 has size \<open>n\<close>.\<close>

definition split_heads :: "nat \<Rightarrow> nat \<Rightarrow> t3 \<Rightarrow> t4" where
  "split_heads H D x = map (map (\<lambda>r. map (\<lambda>h. take D (drop (h * D) r)) [0..<H])) x"

definition transpose_0213 :: "nat \<Rightarrow> t4 \<Rightarrow> t4" where
  "transpose_0213 n x = map (swapaxes n) x"

text \<open>\<open>if cache is not None: k, v = cache(k, v)\<close>; the cache entry is returned
  updated.\<close>

definition use_cache :: "kvcache option \<Rightarrow> t4 \<Rightarrow> t4 \<Rightarrow> (t4 \<times> t4) \<times> kvcache option" where
  "use_cache cache k v =
     (case cache of
        None \<Rightarrow> ((k, v), None)
      | Some c \<Rightarrow> (case KVCache_call c k v of (kv, c') \<Rightarrow> (kv, Some c')))"

text \<open>\<open>repeat(repeats=n, axis=1)\<close>.\<close>

definition repeat_axis1 :: "nat \<Rightarrow> t4 \<Rightarrow> t4" where
  "repeat_axis1 n x = map (\<lambda>b. concat (map (replicate n) b)) x"

text \<open>Broadcasting of the mask against the scores: an axis of the mask of size 1 is
  stretched to the size of the scores' axis.\<close>

definition bcast :: "nat \<Rightarrow> 'a list \<Rightarrow> 'a list" where
  "bcast n xs = (if length xs = 1 then replicate n (hd xs) else xs)"

definition add_mask :: "t4 \<Rightarrow> t4 \<Rightarrow> t4" where
  "add_mask w m =
     map2 (\<lambda>wb mb.
       map2 (\<lambda>wh mh.
         map2 (\<lambda>wr mr. map2 (+) wr (bcast (length wr) mr))
           wh (bcast (length wh) mh))
         wb (bcast (length wb) mb))
       w (bcast (length w) m)"

text \<open>\<open>jax.nn.softmax\<close> along the last axis: the maximum is subtracted before the
  exponential, and the exponentials are divided by their sum.\<close>

definition softmax :: "vec \<Rightarrow> vec" where
  "softmax xs =
     (let x_max = foldr fp_max xs NInf;
          unnormalized = map (\<lambda>x. fp_exp (x - x_max)) xs;
          s = fsum unnormalized
      in map (\<lambda>u. u / s) unnormalized)"

text \<open>The scores before the softmax:
  \<open>w = jnp.matmul(q, k.swapaxes(-1, -2)) * self.scale; w = w + attention_mask\<close>.\<close>

definition attention_scores :: "fp \<Rightarrow> nat \<Rightarrow> t4 \<Rightarrow> t4 \<Rightarrow> t4 \<Rightarrow> t4" where
  "attention_scores scl D q k attention_mask =
     (let w = map2 (map2 (\<lambda>qm km. matmul (length km) qm (swapaxes D km))) q k;
          w = map (map (map (map (\<lambda>a. a * scl)))) w
      in add_mask w attention_mask)"

text \<open>\<open>w = jax.nn.softmax(w, axis=-1)\<close>: the attention weights.\<close>

definition attention_weights :: "fp \<Rightarrow> nat \<Rightarrow> t4 \<Rightarrow> t4 \<Rightarrow> t4 \<Rightarrow> t4" where
  "attention_weights scl D q k attention_mask =
     map (map (map softmax)) (attention_scores scl D q k attention_mask)"

text \<open>\<open>w = jnp.matmul(w, v); w = w.transpose((0, 2, 1, 3)); w = w.reshape(B, L, -1);
  return self.o_proj(w)\<close>.\<close>

definition attention_output :: "linear \<Rightarrow> nat \<Rightarrow> nat \<Rightarrow> t4 \<Rightarrow> t4 \<Rightarrow> t3" where
  "attention_output o_proj L D w v =
     (let w = map2 (map2 (\<lambda>wm vm. matmul D wm vm)) w v;
          w = transpose_0213 L w;
          w = map (map concat) w
      in Linear_call o_proj w)"

subsection \<open>phi3: fused projection, partial rotary encoding\<close>

record phi3_Attention =
  p3_n_heads :: nat
  p3_n_kv_heads :: nat
  p3_head_dim :: nat
  p3_scale :: fp
  p3_qkv_proj :: linear
  p3_o_proj :: linear
  p3_rot_dims :: nat

text \<open>\<open>Attention.__init__\<close> of phi3. \<open>int(head_dim * partial_rotary_factor)\<close> truncates
  the product, which is its floor when the factor is not negative.\<close>

definition phi3_Attention_init :: "config \<Rightarrow> rngs \<Rightarrow> error + phi3_Attention" where
  "phi3_Attention_init cfg rngs =
     (let n_heads = num_attention_heads cfg;
          n_kv_heads = num_key_value_heads cfg
      in case floordiv (hidden_size cfg) n_heads of
           Inl e \<Rightarrow> Inl e
         | Inr hdim \<Rightarrow>
             (case pow_neg_half hdim of
                Inl e \<Rightarrow> Inl e
              | Inr scl \<Rightarrow>
                  (let op_size = n_heads * hdim + 2 * (n_kv_heads * hdim)
                   in Inr \<lparr>p3_n_heads = n_heads, p3_n_kv_heads = n_kv_heads,
                           p3_head_dim = hdim, p3_scale = scl,
                           p3_qkv_proj = Linear_init (hidden_size cfg) op_size rngs,
                           p3_o_proj = Linear_init (n_heads * hdim) (hidden_size cfg) rngs,
                           p3_rot_dims = nat \<lfloor>real hdim * partial_rotary_factor cfg\<rfloor>\<rparr>)))"

text \<open>Lines 20 to 25 of \<open>Attention.__call__\<close>: the fused projection and its three
  slices.\<close>

definition phi3_project :: "phi3_Attention \<Rightarrow> t3 \<Rightarrow> t3 \<times> t3 \<times> t3" where
  "phi3_project a x =
     (let qkv = Linear_call (p3_qkv_proj a) x;
          query_pos = p3_n_heads a * p3_head_dim a;
          kv_pos = query_pos + p3_n_kv_heads a * p3_head_dim a;
          q = map (map (take query_pos)) qkv;
          k = map (map (\<lambda>row. take (kv_pos - query_pos) (drop query_pos row))) qkv;
          v = map (map (drop kv_pos)) qkv
      in (q, k, v))"

text \<open>Lines 19 to 32: projection, split into heads, and rotary encoding.\<close>

definition phi3_qkv :: "phi3_Attention \<Rightarrow> t3 \<Rightarrow> rope \<Rightarrow> t4 \<times> t4 \<times> t4" where
  "phi3_qkv a x r =
     (case phi3_project a x of (q, k, v) \<Rightarrow>
        (let q = split_heads (p3_n_heads a) (p3_head_dim a) q;
             k = split_heads (p3_n_kv_heads a) (p3_head_dim a) k;
             v = split_heads (p3_n_kv_heads a) (p3_head_dim a) v;
             q = transpose_0213 (p3_n_heads a) q;
             k = transpose_0213 (p3_n_kv_heads a) k;
             v = transpose_0213 (p3_n_kv_heads a) v
         in case apply_rope q k r (p3_rot_dims a) of (q, k) \<Rightarrow> (q, k, v)))"

text \<open>Lines 35 to 38: the keys and values are repeated only when there are more heads
  than key/value heads; the repeat count is computed there, and the division raises when
  there are no key/value heads.\<close>

definition phi3_repeat_kv :: "phi3_Attention \<Rightarrow> t4 \<Rightarrow> t4 \<Rightarrow> error + (t4 \<times> t4)" where
  "phi3_repeat_kv a k v =
     (if p3_n_heads a > p3_n_kv_heads a
      then (case floordiv (p3_n_heads a) (p3_n_kv_heads a) of
              Inl e \<Rightarrow> Inl e
            | Inr n_repeat \<Rightarrow> Inr (repeat_axis1 n_repeat k, repeat_axis1 n_repeat v))
      else Inr (k, v))"

text \<open>\<open>Attention.__call__\<close>. It returns the output and the cache entry as the call leaves
  it.\<close>

definition phi3_Attention_call ::
  "phi3_Attention \<Rightarrow> t3 \<Rightarrow> t4 \<Rightarrow> rope \<Rightarrow> kvcache option \<Rightarrow> error + (t3 \<times> kvcache option)" where
  "phi3_Attention_call a x attention_mask r cache =
     (case phi3_qkv a x r of (q, k, v) \<Rightarrow>
        (case use_cache cache k v of ((k, v), cache') \<Rightarrow>
           (case phi3_repeat_kv a k v of
              Inl e \<Rightarrow> Inl e
            | Inr (k, v) \<Rightarrow>
                (let w = attention_weights (p3_scale a) (p3_head_dim a) q k attention_mask
                 in Inr (attention_output (p3_o_proj a) (seq_len x) (p3_head_dim a) w v, cache')))))"

subsection \<open>qwen3: separate projections, query and key normalisation\<close>

record qwen3_Attention =
  q3_num_attention_heads :: nat
  q3_num_kv_heads :: nat
  q3_head_dim :: nat
  q3_scale :: fp
  q3_n_repeat :: nat
  q3_q_proj :: linear
  q3_k_proj :: linear
  q3_v_proj :: linear
  q3_o_proj :: linear
  q3_q_norm :: rmsnorm
  q3_k_norm :: rmsnorm

definition qwen3_Attention_init :: "config \<Rightarrow> rngs \<Rightarrow> error + qwen3_Attention" where
  "qwen3_Attention_init cfg rngs =
     (let n = num_attention_heads cfg; n_kv = num_key_value_heads cfg; hdim = head_dim cfg
      in case pow_neg_half hdim of
           Inl e \<Rightarrow> Inl e
         | Inr scl \<Rightarrow>
             (case floordiv n n_kv of
                Inl e \<Rightarrow> Inl e
              | Inr n_rep \<Rightarrow>
                  Inr \<lparr>q3_num_attention_heads = n, q3_num_kv_heads = n_kv, q3_head_dim = hdim,
                       q3_scale = scl, q3_n_repeat = n_rep,
                       q3_q_proj = Linear_init (hidden_size cfg) (n * hdim) rngs,
                       q3_k_proj = Linear_init (hidden_size cfg) (n_kv * hdim) rngs,
                       q3_v_proj = Linear_init (hidden_size cfg) (n_kv * hdim) rngs,
                       q3_o_proj = Linear_init (n * hdim) (hidden_size cfg) rngs,
                       q3_q_norm = RMSNorm_init hdim (rms_norm_eps cfg),
                       q3_k_norm = RMSNorm_init hdim (rms_norm_eps cfg)\<rparr>))"

text \<open>Lines 23 to 25 of \<open>Attention.__call__\<close>: the three projections.\<close>

definition qwen3_project :: "qwen3_Attention \<Rightarrow> t3 \<Rightarrow> t3 \<times> t3 \<times> t3" where
  "qwen3_project a x =
     (let q = Linear_call (q3_q_proj a) x;
          k = Linear_call (q3_k_proj a) x;
          v = Linear_call (q3_v_proj a) x
      in (q, k, v))"

text \<open>Lines 22 to 34: projection, split into heads, normalisation of queries and keys,
  and rotary encoding; \<open>apply_rope\<close> is called without \<open>rot_dims\<close> and rotates the whole
  head.\<close>

definition qwen3_qkv :: "qwen3_Attention \<Rightarrow> t3 \<Rightarrow> rope \<Rightarrow> t4 \<times> t4 \<times> t4" where
  "qwen3_qkv a x r =
     (case qwen3_project a x of (q, k, v) \<Rightarrow>
        (let q = split_heads (q3_num_attention_heads a) (q3_head_dim a) q;
             k = split_heads (q3_num_kv_heads a) (q3_head_dim a) k;
             v = split_heads (q3_num_kv_heads a) (q3_head_dim a) v;
             q = transpose_0213 (q3_num_attention_heads a) q;
             k = transpose_0213 (q3_num_kv_heads a) k;
             v = transpose_0213 (q3_num_kv_heads a) v;
             q = RMSNorm_call4 (q3_q_norm a) q;
             k = RMSNorm_call4 (q3_k_norm a) k
         in case apply_rope q k r (q3_head_dim a) of (q, k) \<Rightarrow> (q, k, v)))"

text \<open>Lines 37 to 39: the repeat count was computed by the constructor.\<close>

definition qwen3_repeat_kv :: "qwen3_Attention \<Rightarrow> t4 \<Rightarrow> t4 \<Rightarrow> t4 \<times> t4" where
  "qwen3_repeat_kv a k v =
     (if q3_n_repeat a > 1
      then (repeat_axis1 (q3_n_repeat a) k, repeat_axis1 (q3_n_repeat a) v)
      else (k, v))"

definition qwen3_Attention_call ::
  "qwen3_Attention \<Rightarrow> t3 \<Rightarrow> t4 \<Rightarrow> rope \<Rightarrow> kvcache option \<Rightarrow> t3 \<times> kvcache option" where
  "qwen3_Attention_call a x attention_mask r cache =
     (case qwen3_qkv a x r of (q, k, v) \<Rightarrow>
        (case use_cache cache k v of ((k, v), cache') \<Rightarrow>
           (case qwen3_repeat_kv a k v of (k, v) \<Rightarrow>
              (let w = attention_weights (q3_scale a) (q3_head_dim a) q k attention_mask
               in (attention_output (q3_o_proj a) (seq_len x) (q3_head_dim a) w v, cache')))))"

section \<open>Feed-forward\<close>

text \<open>\<open>phi3.MLP\<close>: one projection of width \<open>2 * intermediate_size\<close>, split by
  \<open>jnp.split(x, 2, axis=-1)\<close> into two halves.\<close>

record phi3_MLP =
  p3_gate_up_proj :: linear
  p3_down_proj :: linear


definition split2 :: "vec \<Rightarrow> vec \<times> vec" where
  "split2 r = (take (length r div 2) r, drop (length r div 2) r)"

text \<open>\<open>jax.nn.silu(gate) * up\<close> on one row.\<close>

definition gated :: "vec \<Rightarrow> vec \<Rightarrow> vec" where
  "gated gate up = map2 (*) (map silu gate) up"

definition phi3_MLP_call :: "phi3_MLP \<Rightarrow> t3 \<Rightarrow> t3" where
  "phi3_MLP_call m x =
     (let x = Linear_call (p3_gate_up_proj m) x
      in Linear_call (p3_down_proj m)
           (map (map (\<lambda>r. case split2 r of (gate, up) \<Rightarrow> gated gate up)) x))"

text \<open>\<open>qwen3.MLP\<close>: separate gate and up projections.\<close>

record qwen3_MLP =
  q3_gate_proj :: linear
  q3_down_proj :: linear
  q3_up_proj :: linear


definition qwen3_MLP_call :: "qwen3_MLP \<Rightarrow> t3 \<Rightarrow> t3" where
  "qwen3_MLP_call m x =
     (let gate = Linear_call (q3_gate_proj m) x;
          up = Linear_call (q3_up_proj m) x
      in Linear_call (q3_down_proj m) (map2 (map2 gated) gate up))"

section \<open>Transformer block\<close>







section \<open>Decoder stack and language model\<close>
















section \<open>Notions used in the statements\<close>

subsection \<open>Shapes and finite values\<close>

text \<open>An array of rank 4 has shape (B, H, L, D) when every list at each level has the given
  length; \<open>shape3\<close> leaves the last axis free.\<close>

definition shape3 :: "nat \<Rightarrow> nat \<Rightarrow> nat \<Rightarrow> 'a list list list \<Rightarrow> bool" where
  "shape3 B H L t \<longleftrightarrow>
     length t = B \<and> (\<forall>tb\<in>set t. length tb = H \<and> (\<forall>th\<in>set tb. length th = L))"

definition shape4 :: "nat \<Rightarrow> nat \<Rightarrow> nat \<Rightarrow> nat \<Rightarrow> 'a list list list list \<Rightarrow> bool" where
  "shape4 B H L D t \<longleftrightarrow>
     shape3 B H L t \<and> (\<forall>tb\<in>set t. \<forall>th\<in>set tb. \<forall>r\<in>set th. length r = D)"

text \<open>The entry of the mask that is added to the score of batch element \<open>b\<close>, head \<open>h\<close>,
  query \<open>i\<close> and key \<open>j\<close>: on an axis of size 1 the mask is read at index 0. A mask fits scores
  of shape (B, H, Lq, Lk) when each of its axes has size 1 or the size of the scores' axis.\<close>

definition bidx :: "'a list \<Rightarrow> nat \<Rightarrow> 'a" where
  "bidx xs i = (if length xs = 1 then xs ! 0 else xs ! i)"

definition mask_at :: "t4 \<Rightarrow> nat \<Rightarrow> nat \<Rightarrow> nat \<Rightarrow> nat \<Rightarrow> fp" where
  "mask_at m b h i j = bidx (bidx (bidx (bidx m b) h) i) j"

definition mask_shape :: "nat \<Rightarrow> nat \<Rightarrow> nat \<Rightarrow> nat \<Rightarrow> t4 \<Rightarrow> bool" where
  "mask_shape B H Lq Lk m \<longleftrightarrow>
     (length m = 1 \<or> length m = B) \<and>
     (\<forall>mb\<in>set m. (length mb = 1 \<or> length mb = H) \<and>
        (\<forall>mh\<in>set mb. (length mh = 1 \<or> length mh = Lq) \<and>
           (\<forall>mr\<in>set mh. length mr = 1 \<or> length mr = Lk)))"









subsection \<open>Decoding one position at a time\<close>







subsection \<open>Attention that always repeats\<close>

text \<open>The two calls with the guard around the repetition removed: the keys and values
  are repeated whatever the repeat count is.\<close>

definition phi3_Attention_call_always_repeat ::
  "phi3_Attention \<Rightarrow> t3 \<Rightarrow> t4 \<Rightarrow> rope \<Rightarrow> kvcache option \<Rightarrow> error + (t3 \<times> kvcache option)" where
  "phi3_Attention_call_always_repeat a x attention_mask r cache =
     (case phi3_qkv a x r of (q, k, v) \<Rightarrow>
        (case use_cache cache k v of ((k, v), cache') \<Rightarrow>
           (case floordiv (p3_n_heads a) (p3_n_kv_heads a) of
              Inl e \<Rightarrow> Inl e
            | Inr n_repeat \<Rightarrow>
                (let k = repeat_axis1 n_repeat k;
                     v = repeat_axis1 n_repeat v;
                     w = attention_weights (p3_scale a) (p3_head_dim a) q k attention_mask
                 in Inr (attention_output (p3_o_proj a) (seq_len x) (p3_head_dim a) w v, cache')))))"

definition qwen3_Attention_call_always_repeat ::
  "qwen3_Attention \<Rightarrow> t3 \<Rightarrow> t4 \<Rightarrow> rope \<Rightarrow> kvcache option \<Rightarrow> t3 \<times> kvcache option" where
  "qwen3_Attention_call_always_repeat a x attention_mask r cache =
     (case qwen3_qkv a x r of (q, k, v) \<Rightarrow>
        (case use_cache cache k v of ((k, v), cache') \<Rightarrow>
           (let k = repeat_axis1 (q3_n_repeat a) k;
                v = repeat_axis1 (q3_n_repeat a) v;
                w = attention_weights (q3_scale a) (q3_head_dim a) q k attention_mask
            in (attention_output (q3_o_proj a) (seq_len x) (q3_head_dim a) w v, cache'))))"

section \<open>Example modules\<close>

text \<open>Small concrete configurations, modules and inputs on which the theorems below are
  instantiated. \<open>ex_config\<close> has head counts that divide evenly, \<open>bad_config\<close> has not.\<close>

definition ex_rngs :: rngs where
  "ex_rngs i j = replicate i (replicate j (Fin 1))"

definition ex_config :: config where
  "ex_config =
     \<lparr>hidden_size = 2, num_attention_heads = 2, num_key_value_heads = 1, head_dim = 2,
      intermediate_size = 1, num_hidden_layers = 1, vocab_size = 2, rms_norm_eps = 1,
      partial_rotary_factor = 0, tie_word_embeddings = True\<rparr>"


definition ex_rmsnorm :: "nat \<Rightarrow> rmsnorm" where
  "ex_rmsnorm n = \<lparr>num_features = n, epsilon = Fin 1, scale = replicate n 1\<rparr>"

definition ex_fused_mlp :: phi3_MLP where
  "ex_fused_mlp =
     \<lparr>p3_gate_up_proj = \<lparr>in_features = 1, out_features = 2, kernel = [[Fin 1, Fin 2]]\<rparr>,
      p3_down_proj = \<lparr>in_features = 1, out_features = 1, kernel = [[Fin 1]]\<rparr>\<rparr>"

definition ex_split_mlp :: qwen3_MLP where
  "ex_split_mlp =
     \<lparr>q3_gate_proj = \<lparr>in_features = 1, out_features = 1, kernel = [[Fin 1]]\<rparr>,
      q3_down_proj = \<lparr>in_features = 1, out_features = 1, kernel = [[Fin 1]]\<rparr>,
      q3_up_proj = \<lparr>in_features = 1, out_features = 1, kernel = [[Fin 2]]\<rparr>\<rparr>"

definition ex_fused_attn :: phi3_Attention where
  "ex_fused_attn =
     \<lparr>p3_n_heads = 1, p3_n_kv_heads = 1, p3_head_dim = 1, p3_scale = Fin 1,
      p3_qkv_proj = \<lparr>in_features = 1, out_features = 3, kernel = [[Fin 1, Fin 2, Fin 3]]\<rparr>,
      p3_o_proj = \<lparr>in_features = 1, out_features = 1, kernel = [[Fin 1]]\<rparr>,
      p3_rot_dims = 0\<rparr>"

definition ex_split_attn :: qwen3_Attention where
  "ex_split_attn =
     \<lparr>q3_num_attention_heads = 1, q3_num_kv_heads = 1, q3_head_dim = 1, q3_scale = Fin 1,
      q3_n_repeat = 1,
      q3_q_proj = \<lparr>in_features = 1, out_features = 1, kernel = [[Fin 1]]\<rparr>,
      q3_k_proj = \<lparr>in_features = 1, out_features = 1, kernel = [[Fin 2]]\<rparr>,
      q3_v_proj = \<lparr>in_features = 1, out_features = 1, kernel = [[Fin 3]]\<rparr>,
      q3_o_proj = \<lparr>in_features = 1, out_features = 1, kernel = [[Fin 1]]\<rparr>,
      q3_q_norm = ex_rmsnorm 1, q3_k_norm = ex_rmsnorm 1\<rparr>"

definition ex_phi3_attn :: phi3_Attention where
  "ex_phi3_attn =
     \<lparr>p3_n_heads = 2, p3_n_kv_heads = 1, p3_head_dim = 1, p3_scale = Fin 1,
      p3_qkv_proj = Linear_init 2 4 ex_rngs, p3_o_proj = Linear_init 2 2 ex_rngs,
      p3_rot_dims = 0\<rparr>"

definition ex_qwen3_attn :: qwen3_Attention where
  "ex_qwen3_attn =
     \<lparr>q3_num_attention_heads = 2, q3_num_kv_heads = 1, q3_head_dim = 2,
      q3_scale = Fin (1 / sqrt 2), q3_n_repeat = 2,
      q3_q_proj = Linear_init 2 4 ex_rngs, q3_k_proj = Linear_init 2 2 ex_rngs,
      q3_v_proj = Linear_init 2 2 ex_rngs, q3_o_proj = Linear_init 4 2 ex_rngs,
      q3_q_norm = ex_rmsnorm 2, q3_k_norm = ex_rmsnorm 2\<rparr>"

definition ex_gqa_attn :: phi3_Attention where
  "ex_gqa_attn =
     \<lparr>p3_n_heads = 4, p3_n_kv_heads = 2, p3_head_dim = 1, p3_scale = Fin 1,
      p3_qkv_proj = Linear_init 4 8 ex_rngs, p3_o_proj = Linear_init 4 4 ex_rngs,
      p3_rot_dims = 0\<rparr>"

definition ex_kv :: t4 where
  "ex_kv = [[[[Fin 1]], [[Fin 2]]]]"













section \<open>Auxiliary definitions of the proofs\<close>

text \<open>The exponential that softmax takes of a finite or minus-infinite score after the
  maximum \<open>m\<close> has been subtracted, and one row of scores in index form.\<close>

definition expo :: "real \<Rightarrow> fp \<Rightarrow> real" where
  "expo m x = (if fin x then exp (val x - m) else 0)"

definition score_row :: "fp \<Rightarrow> t4 \<Rightarrow> t4 \<Rightarrow> t4 \<Rightarrow> nat \<Rightarrow> nat \<Rightarrow> nat \<Rightarrow> nat \<Rightarrow> vec" where
  "score_row scl q k m Lk b h i =
     map (\<lambda>j. dot (q ! b ! h ! i) (k ! b ! h ! j) * scl + mask_at m b h i j) [0..<Lk]"











section \<open>Evaluation of the examples\<close>

lemmas fp_eval = zero_fp_def one_fp_def minus_fp_def divide_fp_def

lemmas arr_eval = fsum_def dot_def column_def swapaxes_def vecmat_def matmul_def tadd_def
  Linear_call_def rms_row_def RMSNorm_call_def RMSNorm_call4_def embed_row_def Embed_call_def
  Embed_attend_def rotate_vec_def rope_t4_def apply_rope_def cat_seq_def KVCache_call_def
  seq_len_def split_heads_def transpose_0213_def use_cache_def repeat_axis1_def bcast_def
  add_mask_def softmax_def attention_scores_def attention_weights_def attention_output_def
  Linear_init_def Embed_init_def ex_rngs_def






section \<open>Fused and separate projections\<close>

lemma map2_same: "map2 h (map f xs) (map g xs) = map (\<lambda>x. h (f x) (g x)) xs"
  by (induction xs) auto

lemma map2_map2_same:
  "map2 (map2 h) (map (map f) x) (map (map g) x) = map (map (\<lambda>v. h (f v) (g v))) x"
  by (simp add: map2_same)

lemma column_append_left:
  "length A = length B \<Longrightarrow> \<forall>r\<in>set A. length r = n \<Longrightarrow> j < n \<Longrightarrow>
   column (map2 (@) A B) j = column A j"
  by (induction A B rule: list_induct2) (auto simp: column_def nth_append)

lemma column_append_right:
  "length A = length B \<Longrightarrow> \<forall>r\<in>set A. length r = n \<Longrightarrow>
   column (map2 (@) A B) (n + j) = column B j"
  by (induction A B rule: list_induct2) (auto simp: column_def nth_append)

lemma length_vecmat [simp]: "length (vecmat n v M) = n"
  by (simp add: vecmat_def)

lemma nth_vecmat [simp]: "j < n \<Longrightarrow> vecmat n v M ! j = dot v (column M j)"
  by (simp add: vecmat_def)

text \<open>A row times a kernel whose rows are concatenations: the leading outputs are those
  of the left kernel, the rest those of the right kernel.\<close>

lemma vecmat_fused_left:
  assumes "length A = length B" "\<forall>r\<in>set A. length r = n"
  shows "take n (vecmat (n + k) v (map2 (@) A B)) = vecmat n v A"
  by (intro nth_equalityI) (simp_all add: column_append_left[OF assms])

lemma vecmat_fused_right:
  assumes "length A = length B" "\<forall>r\<in>set A. length r = n"
  shows "drop n (vecmat (n + k) v (map2 (@) A B)) = vecmat k v B"
  by (intro nth_equalityI) (simp_all add: column_append_right[OF assms])

lemma phi3_mlp_row:
  assumes "length Wg = length Wu" "\<forall>r\<in>set Wg. length r = n"
  shows "(case split2 (vecmat (2 * n) v (map2 (@) Wg Wu)) of (gate, up) \<Rightarrow> gated gate up)
         = gated (vecmat n v Wg) (vecmat n v Wu)"
  using vecmat_fused_left[OF assms, of n v] vecmat_fused_right[OF assms, of n v]
  by (simp add: split2_def mult_2)

lemma gated_silu: "gated gate up = map2 (\<lambda>g u. g * sigmoid g * u) gate up"
  by (simp add: gated_def silu_def zip_map1 case_prod_unfold)

lemma qwen3_MLP_formula:
  "qwen3_MLP_call m x =
     Linear_call (q3_down_proj m)
       (map2 (map2 (map2 (\<lambda>g u. g * sigmoid g * u)))
          (Linear_call (q3_gate_proj m) x) (Linear_call (q3_up_proj m) x))"
proof -
  have "gated = map2 (\<lambda>g u. g * sigmoid g * u)"
    by (intro ext) (rule gated_silu)
  then show ?thesis
    by (simp add: qwen3_MLP_call_def)
qed

lemma mlp_fused_equiv:
  assumes "kernel (p3_gate_up_proj m) = map2 (@) (kernel (q3_gate_proj m')) (kernel (q3_up_proj m'))"
    and "length (kernel (q3_gate_proj m')) = length (kernel (q3_up_proj m'))"
    and "\<forall>r\<in>set (kernel (q3_gate_proj m')). length r = out_features (q3_gate_proj m')"
    and "out_features (q3_up_proj m') = out_features (q3_gate_proj m')"
    and "out_features (p3_gate_up_proj m) = 2 * out_features (q3_gate_proj m')"
    and "p3_down_proj m = q3_down_proj m'"
  shows "phi3_MLP_call m x = qwen3_MLP_call m' x"
proof -
  let ?n = "out_features (q3_gate_proj m')"
  let ?g = "\<lambda>v. vecmat ?n v (kernel (q3_gate_proj m'))"
  let ?u = "\<lambda>v. vecmat ?n v (kernel (q3_up_proj m'))"
  have fused: "Linear_call (p3_gate_up_proj m) x
      = map (map (\<lambda>v. vecmat (2 * ?n) v (map2 (@) (kernel (q3_gate_proj m')) (kernel (q3_up_proj m'))))) x"
    using assms(1,5) by (simp add: Linear_call_def)
  have "map (map (\<lambda>r. case split2 r of (gate, up) \<Rightarrow> gated gate up)) (Linear_call (p3_gate_up_proj m) x)
      = map (map (\<lambda>v. gated (?g v) (?u v))) x"
    unfolding fused by (simp add: phi3_mlp_row[OF assms(2,3)] comp_def)
  moreover have "map2 (map2 gated) (Linear_call (q3_gate_proj m') x) (Linear_call (q3_up_proj m') x)
      = map (map (\<lambda>v. gated (?g v) (?u v))) x"
    using assms(4) by (simp add: Linear_call_def map2_map2_same)
  ultimately show ?thesis
    using assms(6) by (simp add: phi3_MLP_call_def qwen3_MLP_call_def)
qed

text \<open>
  Claim C6. Both feed-forward variants compute the down projection of
  \<open>silu(gate(x)) * up(x)\<close>, where \<open>silu(g) = g * sigmoid(g)\<close> is applied to the gate branch
  and the product with the up branch is elementwise. When the kernel of the fused
  projection is the gate kernel and the up kernel side by side (gate first), of equal
  widths, and the down projections agree, the fused variant of phi3 and the separate
  variant of qwen3 return the same array for every input.
\<close>

theorem mlp_fused_equals_separate:
  assumes "kernel (p3_gate_up_proj m) = map2 (@) (kernel (q3_gate_proj m')) (kernel (q3_up_proj m'))"
    and "length (kernel (q3_gate_proj m')) = length (kernel (q3_up_proj m'))"
    and "\<forall>r\<in>set (kernel (q3_gate_proj m')). length r = out_features (q3_gate_proj m')"
    and "out_features (q3_up_proj m') = out_features (q3_gate_proj m')"
    and "out_features (p3_gate_up_proj m) = 2 * out_features (q3_gate_proj m')"
    and "p3_down_proj m = q3_down_proj m'"
  shows "phi3_MLP_call m x = qwen3_MLP_call m' x \<and>
         qwen3_MLP_call m' x =
           Linear_call (q3_down_proj m')
             (map2 (map2 (map2 (\<lambda>g u. g * sigmoid g * u)))
                (Linear_call (q3_gate_proj m') x) (Linear_call (q3_up_proj m') x)) \<and>
         silu = (\<lambda>g. g * sigmoid g)"
  using mlp_fused_equiv[OF assms] qwen3_MLP_formula[of m' x]
  by (simp add: silu_def fun_eq_iff)

theorem mlp_fused_equals_separate_witness:
  "kernel (p3_gate_up_proj ex_fused_mlp)
     = map2 (@) (kernel (q3_gate_proj ex_split_mlp)) (kernel (q3_up_proj ex_split_mlp)) \<and>
   length (kernel (q3_gate_proj ex_split_mlp)) = length (kernel (q3_up_proj ex_split_mlp)) \<and>
   list_all (\<lambda>r. length r = out_features (q3_gate_proj ex_split_mlp))
     (kernel (q3_gate_proj ex_split_mlp)) \<and>
   out_features (q3_up_proj ex_split_mlp) = out_features (q3_gate_proj ex_split_mlp) \<and>
   out_features (p3_gate_up_proj ex_fused_mlp) = 2 * out_features (q3_gate_proj ex_split_mlp) \<and>
   p3_down_proj ex_fused_mlp = q3_down_proj ex_split_mlp \<and>
   phi3_MLP_call ex_fused_mlp [[[Fin 3]]] = qwen3_MLP_call ex_split_mlp [[[Fin 3]]]"
proof -
  have h: "kernel (p3_gate_up_proj ex_fused_mlp)
        = map2 (@) (kernel (q3_gate_proj ex_split_mlp)) (kernel (q3_up_proj ex_split_mlp))"
    "length (kernel (q3_gate_proj ex_split_mlp)) = length (kernel (q3_up_proj ex_split_mlp))"
    "\<forall>r\<in>set (kernel (q3_gate_proj ex_split_mlp)). length r = out_features (q3_gate_proj ex_split_mlp)"
    "out_features (q3_up_proj ex_split_mlp) = out_features (q3_gate_proj ex_split_mlp)"
    "out_features (p3_gate_up_proj ex_fused_mlp) = 2 * out_features (q3_gate_proj ex_split_mlp)"
    "p3_down_proj ex_fused_mlp = q3_down_proj ex_split_mlp"
    by (simp_all add: ex_fused_mlp_def ex_split_mlp_def)
  from mlp_fused_equals_separate[OF h, of "[[[Fin 3]]]"] h show ?thesis
    by (simp add: list_all_iff)
qed

lemma phi3_project_row:
  assumes len: "length Wq = length Wk" "length Wk = length Wv"
    and wq: "\<forall>r\<in>set Wq. length r = qp"
    and wk: "\<forall>r\<in>set Wk. length r = kp"
    and f_def: "f = vecmat (qp + 2 * kp) v (map2 (@) Wq (map2 (@) Wk Wv))"
  shows "take qp f = vecmat qp v Wq"
    and "take (qp + kp - qp) (drop qp f) = vecmat kp v Wk"
    and "drop (qp + kp) f = vecmat kp v Wv"
proof -
  have l: "length Wq = length (map2 (@) Wk Wv)"
    using len by simp
  show "take qp f = vecmat qp v Wq"
    unfolding f_def by (rule vecmat_fused_left[OF l wq])
  have d: "drop qp f = vecmat (kp + kp) v (map2 (@) Wk Wv)"
    unfolding f_def mult_2 by (rule vecmat_fused_right[OF l wq])
  show "take (qp + kp - qp) (drop qp f) = vecmat kp v Wk"
    unfolding d using vecmat_fused_left[OF len(2) wk] by simp
  have "drop (qp + kp) f = drop kp (drop qp f)"
    by (simp add: add.commute)
  then show "drop (qp + kp) f = vecmat kp v Wv"
    unfolding d using vecmat_fused_right[OF len(2) wk] by simp
qed

lemma qkv_fused_equiv:
  assumes "kernel (p3_qkv_proj a) =
             map2 (@) (kernel (q3_q_proj a')) (map2 (@) (kernel (q3_k_proj a')) (kernel (q3_v_proj a')))"
    and "length (kernel (q3_q_proj a')) = length (kernel (q3_k_proj a'))"
    and "length (kernel (q3_k_proj a')) = length (kernel (q3_v_proj a'))"
    and "\<forall>r\<in>set (kernel (q3_q_proj a')). length r = p3_n_heads a * p3_head_dim a"
    and "\<forall>r\<in>set (kernel (q3_k_proj a')). length r = p3_n_kv_heads a * p3_head_dim a"
    and "out_features (p3_qkv_proj a) =
           p3_n_heads a * p3_head_dim a + 2 * (p3_n_kv_heads a * p3_head_dim a)"
    and "out_features (q3_q_proj a') = p3_n_heads a * p3_head_dim a"
    and "out_features (q3_k_proj a') = p3_n_kv_heads a * p3_head_dim a"
    and "out_features (q3_v_proj a') = p3_n_kv_heads a * p3_head_dim a"
  shows "phi3_project a x = qwen3_project a' x"
  using assms(1,6-9) phi3_project_row[OF assms(2-5) refl]
  by (simp add: phi3_project_def qwen3_project_def Linear_call_def comp_def)

lemma phi3_init_op_size:
  "phi3_Attention_init cfg rngs = Inr a \<Longrightarrow>
   out_features (p3_qkv_proj a) = p3_n_heads a * p3_head_dim a + 2 * (p3_n_kv_heads a * p3_head_dim a)"
  by (auto simp: phi3_Attention_init_def Let_def Linear_init_def split: sum.splits)

text \<open>
  Claim C5. The fused projection of phi3 has output width
  \<open>n_heads * head_dim + 2 * (n_kv_heads * head_dim)\<close> and is sliced at the offsets
  \<open>n_heads * head_dim\<close> and \<open>n_heads * head_dim + n_kv_heads * head_dim\<close>. When its kernel is
  the query, key and value kernels of three separate projections side by side, the three
  slices are exactly the outputs of the three separate projections, for every input.
\<close>

theorem fused_qkv_equals_separate:
  assumes "kernel (p3_qkv_proj a) =
             map2 (@) (kernel (q3_q_proj a')) (map2 (@) (kernel (q3_k_proj a')) (kernel (q3_v_proj a')))"
    and "length (kernel (q3_q_proj a')) = length (kernel (q3_k_proj a'))"
    and "length (kernel (q3_k_proj a')) = length (kernel (q3_v_proj a'))"
    and "\<forall>r\<in>set (kernel (q3_q_proj a')). length r = p3_n_heads a * p3_head_dim a"
    and "\<forall>r\<in>set (kernel (q3_k_proj a')). length r = p3_n_kv_heads a * p3_head_dim a"
    and "out_features (p3_qkv_proj a) =
           p3_n_heads a * p3_head_dim a + 2 * (p3_n_kv_heads a * p3_head_dim a)"
    and "out_features (q3_q_proj a') = p3_n_heads a * p3_head_dim a"
    and "out_features (q3_k_proj a') = p3_n_kv_heads a * p3_head_dim a"
    and "out_features (q3_v_proj a') = p3_n_kv_heads a * p3_head_dim a"
  shows "phi3_project a x = qwen3_project a' x \<and>
         qwen3_project a' x =
           (Linear_call (q3_q_proj a') x, Linear_call (q3_k_proj a') x, Linear_call (q3_v_proj a') x) \<and>
         (phi3_Attention_init cfg rngs = Inr a0 \<longrightarrow>
            out_features (p3_qkv_proj a0) =
              p3_n_heads a0 * p3_head_dim a0 + 2 * (p3_n_kv_heads a0 * p3_head_dim a0))"
  using qkv_fused_equiv[OF assms] phi3_init_op_size[of cfg rngs a0]
  by (simp add: qwen3_project_def)

theorem fused_qkv_equals_separate_witness:
  "kernel (p3_qkv_proj ex_fused_attn) =
     map2 (@) (kernel (q3_q_proj ex_split_attn))
       (map2 (@) (kernel (q3_k_proj ex_split_attn)) (kernel (q3_v_proj ex_split_attn))) \<and>
   list_all (\<lambda>r. length r = p3_n_heads ex_fused_attn * p3_head_dim ex_fused_attn)
     (kernel (q3_q_proj ex_split_attn)) \<and>
   list_all (\<lambda>r. length r = p3_n_kv_heads ex_fused_attn * p3_head_dim ex_fused_attn)
     (kernel (q3_k_proj ex_split_attn)) \<and>
   phi3_project ex_fused_attn [[[Fin 5]]] = ([[[Fin 5]]], [[[Fin 10]]], [[[Fin 15]]]) \<and>
   qwen3_project ex_split_attn [[[Fin 5]]] = ([[[Fin 5]]], [[[Fin 10]]], [[[Fin 15]]])"
proof -
  have h: "kernel (p3_qkv_proj ex_fused_attn) =
      map2 (@) (kernel (q3_q_proj ex_split_attn))
        (map2 (@) (kernel (q3_k_proj ex_split_attn)) (kernel (q3_v_proj ex_split_attn)))"
    "length (kernel (q3_q_proj ex_split_attn)) = length (kernel (q3_k_proj ex_split_attn))"
    "length (kernel (q3_k_proj ex_split_attn)) = length (kernel (q3_v_proj ex_split_attn))"
    "\<forall>r\<in>set (kernel (q3_q_proj ex_split_attn)).
        length r = p3_n_heads ex_fused_attn * p3_head_dim ex_fused_attn"
    "\<forall>r\<in>set (kernel (q3_k_proj ex_split_attn)).
        length r = p3_n_kv_heads ex_fused_attn * p3_head_dim ex_fused_attn"
    "out_features (p3_qkv_proj ex_fused_attn) =
       p3_n_heads ex_fused_attn * p3_head_dim ex_fused_attn
       + 2 * (p3_n_kv_heads ex_fused_attn * p3_head_dim ex_fused_attn)"
    "out_features (q3_q_proj ex_split_attn) = p3_n_heads ex_fused_attn * p3_head_dim ex_fused_attn"
    "out_features (q3_k_proj ex_split_attn) = p3_n_kv_heads ex_fused_attn * p3_head_dim ex_fused_attn"
    "out_features (q3_v_proj ex_split_attn) = p3_n_kv_heads ex_fused_attn * p3_head_dim ex_fused_attn"
    by (simp_all add: ex_fused_attn_def ex_split_attn_def)
  have e: "qwen3_project ex_split_attn [[[Fin 5]]] = ([[[Fin 5]]], [[[Fin 10]]], [[[Fin 15]]])"
    by (simp add: qwen3_project_def ex_split_attn_def Linear_call_def vecmat_def dot_def
        fsum_def column_def zero_fp_def)
  have "phi3_project ex_fused_attn [[[Fin 5]]] = qwen3_project ex_split_attn [[[Fin 5]]]"
    by (rule fused_qkv_equals_separate[OF h, THEN conjunct1])
  with h e show ?thesis
    by (simp add: list_all_iff)
qed

section \<open>Tied and untied output projection\<close>








section \<open>Transformer block\<close>


section \<open>Grouped-query repetition\<close>

lemma concat_replicate_nth:
  "h < length xs \<Longrightarrow> j < n \<Longrightarrow> concat (map (replicate n) xs) ! (h * n + j) = xs ! h"
proof (induction xs arbitrary: h)
  case Nil
  then show ?case by simp
next
  case (Cons x xs)
  show ?case
  proof (cases h)
    case 0
    with Cons.prems show ?thesis by (simp add: nth_append)
  next
    case (Suc h')
    with Cons.prems have "h' < length xs" by simp
    from Cons.IH[OF this Cons.prems(2)] Suc show ?thesis
      by (simp add: nth_append add.assoc)
  qed
qed

lemma length_concat_replicate: "length (concat (map (replicate n) xs)) = n * length xs"
  by (induction xs) auto

lemma repeat_axis1_nth:
  "b < length k \<Longrightarrow> h < length (k ! b) \<Longrightarrow> j < n \<Longrightarrow>
   repeat_axis1 n k ! b ! (h * n + j) = k ! b ! h"
  by (simp add: repeat_axis1_def concat_replicate_nth)

lemma repeat_axis1_length:
  "b < length k \<Longrightarrow> length (repeat_axis1 n k ! b) = n * length (k ! b)"
  by (simp add: repeat_axis1_def length_concat_replicate)

lemma concat_replicate_1: "concat (map (replicate (Suc 0)) xs) = xs"
  by (induction xs) auto

lemma repeat_axis1_one [simp]: "repeat_axis1 (Suc 0) k = k"
  by (simp add: repeat_axis1_def concat_replicate_1)

lemma qwen3_repeat_kv_eq:
  "0 < q3_n_repeat a \<Longrightarrow>
   qwen3_repeat_kv a k v = (repeat_axis1 (q3_n_repeat a) k, repeat_axis1 (q3_n_repeat a) v)"
  by (cases "q3_n_repeat a = 1") (auto simp: qwen3_repeat_kv_def)

lemma phi3_repeat_kv_many:
  "p3_n_kv_heads a < p3_n_heads a \<Longrightarrow> 0 < p3_n_kv_heads a \<Longrightarrow>
   phi3_repeat_kv a k v =
     Inr (repeat_axis1 (p3_n_heads a div p3_n_kv_heads a) k,
          repeat_axis1 (p3_n_heads a div p3_n_kv_heads a) v)"
  by (simp add: phi3_repeat_kv_def floordiv_def)

text \<open>
  Claim C2. When phi3 has more heads than key/value heads, the keys and the values are
  repeated along the head axis \<open>n_repeat = n_heads div n_kv_heads\<close> times, and key/value head
  \<open>h\<close> fills the positions \<open>h * n_repeat + j\<close>, \<open>j < n_repeat\<close>, of the result, which has
  \<open>n_repeat\<close> times as many heads. In qwen3 the same holds with the repeat count that the
  constructor computed as \<open>num_attention_heads div num_key_value_heads\<close>. With 4 heads and 2
  key/value heads, heads 0 and 1 get key/value head 0 and heads 2 and 3 get key/value
  head 1.
\<close>

theorem gqa_heads_replicated_contiguously:
  assumes "p3_n_kv_heads a < p3_n_heads a" and "0 < p3_n_kv_heads a"
    and "b < length k" and "h < length (k ! b)" and "j < p3_n_heads a div p3_n_kv_heads a"
    and "b' < length k'" and "h' < length (k' ! b')" and "j' < q3_n_repeat a'"
  shows "phi3_repeat_kv a k v =
           Inr (repeat_axis1 (p3_n_heads a div p3_n_kv_heads a) k,
                repeat_axis1 (p3_n_heads a div p3_n_kv_heads a) v) \<and>
         repeat_axis1 (p3_n_heads a div p3_n_kv_heads a) k
           ! b ! (h * (p3_n_heads a div p3_n_kv_heads a) + j) = k ! b ! h \<and>
         length (repeat_axis1 (p3_n_heads a div p3_n_kv_heads a) k ! b)
           = (p3_n_heads a div p3_n_kv_heads a) * length (k ! b) \<and>
         qwen3_repeat_kv a' k' v' =
           (repeat_axis1 (q3_n_repeat a') k', repeat_axis1 (q3_n_repeat a') v') \<and>
         repeat_axis1 (q3_n_repeat a') k' ! b' ! (h' * q3_n_repeat a' + j') = k' ! b' ! h' \<and>
         length (repeat_axis1 (q3_n_repeat a') k' ! b') = q3_n_repeat a' * length (k' ! b') \<and>
         (qwen3_Attention_init cfg rngs = Inr a0 \<longrightarrow>
            q3_n_repeat a0 = num_attention_heads cfg div num_key_value_heads cfg)"
proof -
  have q: "qwen3_repeat_kv a' k' v' =
      (repeat_axis1 (q3_n_repeat a') k', repeat_axis1 (q3_n_repeat a') v')"
    using assms(8) by (intro qwen3_repeat_kv_eq) simp
  have i: "qwen3_Attention_init cfg rngs = Inr a0 \<longrightarrow>
            q3_n_repeat a0 = num_attention_heads cfg div num_key_value_heads cfg"
    by (auto simp: qwen3_Attention_init_def floordiv_def pow_neg_half_def Let_def
        split: sum.splits if_splits)
  show ?thesis
    using assms i q phi3_repeat_kv_many[OF assms(1,2), of k v]
    by (simp add: repeat_axis1_nth repeat_axis1_length)
qed

theorem gqa_heads_replicated_contiguously_witness:
  "p3_n_heads ex_gqa_attn = 4 \<and> p3_n_kv_heads ex_gqa_attn = 2 \<and>
   phi3_repeat_kv ex_gqa_attn ex_kv ex_kv =
     Inr (repeat_axis1 2 ex_kv, repeat_axis1 2 ex_kv) \<and>
   repeat_axis1 2 ex_kv ! 0 ! 0 = ex_kv ! 0 ! 0 \<and>
   repeat_axis1 2 ex_kv ! 0 ! 1 = ex_kv ! 0 ! 0 \<and>
   repeat_axis1 2 ex_kv ! 0 ! 2 = ex_kv ! 0 ! 1 \<and>
   repeat_axis1 2 ex_kv ! 0 ! 3 = ex_kv ! 0 ! 1 \<and>
   length (repeat_axis1 2 ex_kv ! 0) = 4 \<and>
   qwen3_repeat_kv ex_qwen3_attn ex_kv ex_kv = (repeat_axis1 2 ex_kv, repeat_axis1 2 ex_kv)"
proof -
  have p: "p3_n_heads ex_gqa_attn = 4" "p3_n_kv_heads ex_gqa_attn = 2" "length ex_kv = 1"
    "length (ex_kv ! 0) = 2" "q3_n_repeat ex_qwen3_attn = 2"
    by (simp_all add: ex_gqa_attn_def ex_kv_def ex_qwen3_attn_def)
  have g: "p3_n_kv_heads ex_gqa_attn < p3_n_heads ex_gqa_attn" "0 < p3_n_kv_heads ex_gqa_attn"
    "0 < length ex_kv" "0 < length (ex_kv ! 0)" "1 < length (ex_kv ! 0)"
    "0 < p3_n_heads ex_gqa_attn div p3_n_kv_heads ex_gqa_attn"
    "1 < p3_n_heads ex_gqa_attn div p3_n_kv_heads ex_gqa_attn"
    "1 < q3_n_repeat ex_qwen3_attn"
    by (simp_all add: p)
  note t = gqa_heads_replicated_contiguously[where cfg = ex_config and rngs = ex_rngs
      and ?a0.0 = ex_qwen3_attn and v = ex_kv and v' = ex_kv]
  from t[OF g(1,2,3,4,6) g(3,5,8)] t[OF g(1,2,3,4,7) g(3,5,8)]
    t[OF g(1,2,3,5,6) g(3,5,8)] t[OF g(1,2,3,5,7) g(3,5,8)]
  show ?thesis
    by (simp add: p)
qed

lemma phi3_guard_skip:
  "p3_n_heads a = p3_n_kv_heads a \<Longrightarrow> 0 < p3_n_heads a \<Longrightarrow>
   phi3_Attention_call a x m r c = phi3_Attention_call_always_repeat a x m r c"
  by (simp add: phi3_Attention_call_def phi3_Attention_call_always_repeat_def phi3_repeat_kv_def
      floordiv_def)

lemma qwen3_guard_skip:
  "q3_n_repeat a = 1 \<Longrightarrow>
   qwen3_Attention_call a x m r c = qwen3_Attention_call_always_repeat a x m r c"
  by (simp add: qwen3_Attention_call_def qwen3_Attention_call_always_repeat_def qwen3_repeat_kv_def)

text \<open>
  Claim C10. Repeating with factor 1 is the identity. So where the guard skips the
  repetition because the factor is 1 (phi3: as many heads as key/value heads; qwen3:
  \<open>n_repeat = 1\<close>), attention returns what it returns when the repetition is done
  unconditionally, for every input.
\<close>

theorem repeat_guard_skips_identity:
  assumes "p3_n_heads a = p3_n_kv_heads a" and "0 < p3_n_heads a" and "q3_n_repeat a' = 1"
  shows "phi3_Attention_call a x m r c = phi3_Attention_call_always_repeat a x m r c \<and>
         qwen3_Attention_call a' x' m' r' c' = qwen3_Attention_call_always_repeat a' x' m' r' c' \<and>
         repeat_axis1 1 k = k"
  using phi3_guard_skip[OF assms(1,2)] qwen3_guard_skip[OF assms(3)]
  by simp

theorem repeat_guard_skips_identity_witness:
  "p3_n_heads ex_fused_attn = p3_n_kv_heads ex_fused_attn \<and> 0 < p3_n_heads ex_fused_attn \<and>
   q3_n_repeat ex_split_attn = 1 \<and>
   phi3_Attention_call ex_fused_attn [[[Fin 1]]] [[[[Fin 0]]]] ([[]], [[]]) None
     = phi3_Attention_call_always_repeat ex_fused_attn [[[Fin 1]]] [[[[Fin 0]]]] ([[]], [[]]) None \<and>
   qwen3_Attention_call ex_split_attn [[[Fin 1]]] [[[[Fin 0]]]] ([[]], [[]]) None
     = qwen3_Attention_call_always_repeat ex_split_attn [[[Fin 1]]] [[[[Fin 0]]]] ([[]], [[]]) None \<and>
   repeat_axis1 1 ex_kv = ex_kv"
proof -
  have h: "p3_n_heads ex_fused_attn = p3_n_kv_heads ex_fused_attn" "0 < p3_n_heads ex_fused_attn"
    "q3_n_repeat ex_split_attn = 1"
    by (simp_all add: ex_fused_attn_def ex_split_attn_def)
  from repeat_guard_skips_identity[OF h, of "[[[Fin 1]]]" "[[[[Fin 0]]]]" "([[]], [[]])" None
      "[[[Fin 1]]]" "[[[[Fin 0]]]]" "([[]], [[]])" None ex_kv] h
  show ?thesis by simp
qed

section \<open>Construction\<close>








section \<open>Forward call of the decoder stack\<close>











section \<open>Scores and softmax\<close>

subsection \<open>Finite values\<close>


lemma fin_val: "fin x \<Longrightarrow> x = Fin (val x)"
  by (cases x) auto

lemma fin_plus [simp]: "fin a \<Longrightarrow> fin b \<Longrightarrow> fin (a + b)"
  by (cases a; cases b) auto


lemma fin_uminus [simp]: "fin a \<Longrightarrow> fin (- a)"
  by (cases a) auto

lemma fin_minus [simp]: "fin a \<Longrightarrow> fin b \<Longrightarrow> fin (a - b)"
  by (simp add: minus_fp_def)

lemma fin_zero [simp]: "fin 0"
  by (simp add: zero_fp_def)

lemma fin_plus_NInf [simp]: "fin a \<Longrightarrow> a + NInf = NInf"
  by (cases a) auto

lemma add_zero_fp [simp]: "a + (0::fp) = a"
  by (cases a) (auto simp: zero_fp_def)

lemma zero_times_fin [simp]: "fin a \<Longrightarrow> 0 * a = 0"
  by (cases a) (auto simp: zero_fp_def)


lemma fsum_Fin: "fsum (map Fin rs) = Fin (sum_list rs)"
  by (induction rs) (auto simp: fsum_def zero_fp_def)


subsection \<open>Softmax of a row of finite and minus-infinite scores\<close>

lemma row_max:
  assumes "\<forall>x\<in>set xs. fin x \<or> x = NInf"
  shows "(fin (foldr fp_max xs NInf) \<and> (\<exists>x\<in>set xs. fin x)) \<or>
         (foldr fp_max xs NInf = NInf \<and> (\<forall>x\<in>set xs. x = NInf))"
  using assms
proof (induction xs)
  case Nil
  then show ?case by simp
next
  case (Cons x xs)
  then show ?case
    by (cases x; cases "foldr fp_max xs NInf") auto
qed

lemma row_max_fin:
  "\<forall>x\<in>set xs. fin x \<or> x = NInf \<Longrightarrow> \<exists>x\<in>set xs. fin x \<Longrightarrow> fin (foldr fp_max xs NInf)"
  using row_max[of xs] by auto

lemma exp_shift: "fin x \<or> x = NInf \<Longrightarrow> fp_exp (x - Fin m) = Fin (expo m x)"
  by (cases x) (auto simp: expo_def minus_fp_def)

lemma expo_sum_pos:
  "\<exists>x\<in>set xs. fin x \<Longrightarrow> 0 < sum_list (map (expo m) xs)"
proof (induction xs)
  case Nil
  then show ?case by simp
next
  case (Cons x xs)
  have nn: "0 \<le> sum_list (map (expo m) xs)"
    by (rule sum_list_nonneg) (auto simp: expo_def)
  show ?case
  proof (cases "fin x")
    case True
    then have "0 < expo m x" by (simp add: expo_def)
    with nn show ?thesis by simp
  next
    case False
    with Cons have "0 < sum_list (map (expo m) xs)" by auto
    moreover have "0 \<le> expo m x" by (simp add: expo_def)
    ultimately show ?thesis by simp
  qed
qed

lemma softmax_explicit:
  assumes a: "\<forall>x\<in>set xs. fin x \<or> x = NInf" and b: "\<exists>x\<in>set xs. fin x"
  shows "softmax xs =
           map (\<lambda>x. Fin (expo (val (foldr fp_max xs NInf)) x
                          / sum_list (map (expo (val (foldr fp_max xs NInf))) xs))) xs"
proof -
  let ?m = "val (foldr fp_max xs NInf)"
  let ?S = "sum_list (map (expo ?m) xs)"
  have m: "foldr fp_max xs NInf = Fin ?m"
    using row_max_fin[OF a b] by (rule fin_val)
  have un: "map (\<lambda>x. fp_exp (x - foldr fp_max xs NInf)) xs = map Fin (map (expo ?m) xs)"
    using a by (subst m) (simp add: exp_shift)
  have S: "?S \<noteq> 0"
    using expo_sum_pos[OF b, of ?m] by simp
  show ?thesis
    unfolding softmax_def Let_def un fsum_Fin
    using S by (simp add: divide_fp_def comp_def)
qed

lemma softmax_sums_to_one:
  assumes a: "\<forall>x\<in>set xs. fin x \<or> x = NInf" and b: "\<exists>x\<in>set xs. fin x"
  shows "fsum (softmax xs) = 1"
proof -
  let ?m = "val (foldr fp_max xs NInf)"
  let ?S = "sum_list (map (expo ?m) xs)"
  have S: "?S \<noteq> 0"
    using expo_sum_pos[OF b, of ?m] by simp
  have "fsum (softmax xs) = Fin (sum_list (map (\<lambda>x. expo ?m x / ?S) xs))"
    unfolding softmax_explicit[OF a b] using fsum_Fin[of "map (\<lambda>x. expo ?m x / ?S) xs"]
    by (simp add: comp_def)
  also have "sum_list (map (\<lambda>x. expo ?m x / ?S) xs) = ?S / ?S"
    by (simp add: divide_inverse sum_list_mult_const comp_def)
  finally show ?thesis
    using S by (simp add: one_fp_def)
qed

lemma softmax_masked_zero:
  assumes a: "\<forall>x\<in>set xs. fin x \<or> x = NInf" and b: "\<exists>x\<in>set xs. fin x"
    and j: "j < length xs" "xs ! j = NInf"
  shows "softmax xs ! j = 0"
  unfolding softmax_explicit[OF a b] using j by (simp add: expo_def zero_fp_def)

lemma length_softmax [simp]: "length (softmax xs) = length xs"
  by (simp add: softmax_def Let_def)



subsection \<open>Scores, weights and output by index\<close>

lemma shape3D:
  assumes "shape3 B H L t"
  shows "length t = B" "b < B \<Longrightarrow> length (t ! b) = H" "b < B \<Longrightarrow> h < H \<Longrightarrow> length (t ! b ! h) = L"
proof -
  show 1: "length t = B" using assms by (simp add: shape3_def)
  { assume "b < B"
    with 1 have tb: "t ! b \<in> set t" by simp
    with assms show 2: "length (t ! b) = H" by (simp add: shape3_def)
    { assume "h < H"
      with 2 have "t ! b ! h \<in> set (t ! b)" by simp
      with assms tb show "length (t ! b ! h) = L" by (simp add: shape3_def)
    }
  }
qed

lemma shape4D:
  assumes "shape4 B H L D t"
  shows "shape3 B H L t" "b < B \<Longrightarrow> h < H \<Longrightarrow> i < L \<Longrightarrow> length (t ! b ! h ! i) = D"
proof -
  show 1: "shape3 B H L t" using assms by (simp add: shape4_def)
  note s = shape3D[OF 1]
  { assume "b < B" "h < H" "i < L"
    then have "t ! b \<in> set t" "t ! b ! h \<in> set (t ! b)" "t ! b ! h ! i \<in> set (t ! b ! h)"
      using s by simp_all
    with assms show "length (t ! b ! h ! i) = D" by (simp add: shape4_def)
  }
qed

lemma bidx_mem: "length xs = 1 \<or> i < length xs \<Longrightarrow> bidx xs i \<in> set xs"
  by (auto simp: bidx_def)

lemma mask_shapeD:
  assumes "mask_shape B H Lq Lk m"
  shows "length m = 1 \<or> length m = B"
    "b < B \<Longrightarrow> length (bidx m b) = 1 \<or> length (bidx m b) = H"
    "b < B \<Longrightarrow> h < H \<Longrightarrow> length (bidx (bidx m b) h) = 1 \<or> length (bidx (bidx m b) h) = Lq"
    "b < B \<Longrightarrow> h < H \<Longrightarrow> i < Lq \<Longrightarrow>
       length (bidx (bidx (bidx m b) h) i) = 1 \<or> length (bidx (bidx (bidx m b) h) i) = Lk"
proof -
  show 1: "length m = 1 \<or> length m = B"
    using assms by (simp add: mask_shape_def)
  { assume b: "b < B"
    with 1 have mb: "bidx m b \<in> set m" by (auto intro: bidx_mem)
    with assms show 2: "length (bidx m b) = 1 \<or> length (bidx m b) = H"
      by (auto simp: mask_shape_def)
    { assume h: "h < H"
      with 2 have mh: "bidx (bidx m b) h \<in> set (bidx m b)" by (auto intro: bidx_mem)
      with assms mb show 3: "length (bidx (bidx m b) h) = 1 \<or> length (bidx (bidx m b) h) = Lq"
        by (auto simp: mask_shape_def)
      { assume i: "i < Lq"
        with 3 have "bidx (bidx (bidx m b) h) i \<in> set (bidx (bidx m b) h)" by (auto intro: bidx_mem)
        with assms mb mh show "length (bidx (bidx (bidx m b) h) i) = 1 \<or> length (bidx (bidx (bidx m b) h) i) = Lk"
          by (auto simp: mask_shape_def)
      }
    }
  }
qed


lemma hd_single: "length ys = Suc 0 \<Longrightarrow> hd ys = ys ! 0"
  by (cases ys) auto

lemma map2_bcast:
  "length ys = 1 \<or> length ys = length xs \<Longrightarrow>
   map2 f xs (bcast (length xs) ys) = map (\<lambda>i. f (xs ! i) (bidx ys i)) [0..<length xs]"
  by (intro nth_equalityI) (auto simp: bcast_def bidx_def hd_single)

lemma map_upt_cong: "(\<And>i. i < n \<Longrightarrow> f i = g i) \<Longrightarrow> map f [0..<n] = map g [0..<n]"
  by simp

lemma add_mask_index:
  assumes w: "shape4 B H Lq Lk w" and m: "mask_shape B H Lq Lk m"
  shows "add_mask w m =
           map (\<lambda>b. map (\<lambda>h. map (\<lambda>i. map (\<lambda>j. w ! b ! h ! i ! j + mask_at m b h i j)
                 [0..<Lk]) [0..<Lq]) [0..<H]) [0..<B]"
proof -
  note s = shape3D[OF shape4D(1)[OF w]] shape4D(2)[OF w]
  note ms = mask_shapeD[OF m]
  let ?row = "\<lambda>wr mr. map2 (+) wr (bcast (length wr) mr)"
  let ?head = "\<lambda>wh mh. map2 ?row wh (bcast (length wh) mh)"
  let ?batch = "\<lambda>wb mb. map2 ?head wb (bcast (length wb) mb)"
  have row: "?row (w ! b ! h ! i) (bidx (bidx (bidx m b) h) i)
        = map (\<lambda>j. w ! b ! h ! i ! j + mask_at m b h i j) [0..<Lk]"
    if "b < B" "h < H" "i < Lq" for b h i
    using map2_bcast[of "bidx (bidx (bidx m b) h) i" "w ! b ! h ! i" "(+)"] s(4)[OF that] ms(4)[OF that]
    by (simp add: mask_at_def)
  have head: "?head (w ! b ! h) (bidx (bidx m b) h)
        = map (\<lambda>i. map (\<lambda>j. w ! b ! h ! i ! j + mask_at m b h i j) [0..<Lk]) [0..<Lq]"
    if "b < B" "h < H" for b h
  proof -
    have "?head (w ! b ! h) (bidx (bidx m b) h)
        = map (\<lambda>i. ?row (w ! b ! h ! i) (bidx (bidx (bidx m b) h) i)) [0..<Lq]"
      using map2_bcast[of "bidx (bidx m b) h" "w ! b ! h" ?row] s(3)[OF that] ms(3)[OF that]
      by simp
    also have "\<dots> = map (\<lambda>i. map (\<lambda>j. w ! b ! h ! i ! j + mask_at m b h i j) [0..<Lk]) [0..<Lq]"
      by (rule map_upt_cong) (rule row[OF that])
    finally show ?thesis .
  qed
  have batch: "?batch (w ! b) (bidx m b)
        = map (\<lambda>h. map (\<lambda>i. map (\<lambda>j. w ! b ! h ! i ! j + mask_at m b h i j) [0..<Lk]) [0..<Lq]) [0..<H]"
    if "b < B" for b
  proof -
    have "?batch (w ! b) (bidx m b) = map (\<lambda>h. ?head (w ! b ! h) (bidx (bidx m b) h)) [0..<H]"
      using map2_bcast[of "bidx m b" "w ! b" ?head] s(2)[OF that] ms(2)[OF that]
      by simp
    also have "\<dots> = map (\<lambda>h. map (\<lambda>i. map (\<lambda>j. w ! b ! h ! i ! j + mask_at m b h i j) [0..<Lk]) [0..<Lq]) [0..<H]"
      by (rule map_upt_cong) (rule head[OF that])
    finally show ?thesis .
  qed
  have "add_mask w m = map (\<lambda>b. ?batch (w ! b) (bidx m b)) [0..<B]"
    unfolding add_mask_def using map2_bcast[of m w ?batch] s(1) ms(1) by simp
  also have "\<dots> = map (\<lambda>b. map (\<lambda>h. map (\<lambda>i. map (\<lambda>j. w ! b ! h ! i ! j + mask_at m b h i j)
                 [0..<Lk]) [0..<Lq]) [0..<H]) [0..<B]"
    by (rule map_upt_cong) (rule batch)
  finally show ?thesis .
qed

lemma column_swapaxes_rect:
  "j < length M \<Longrightarrow> length (M ! j) = n \<Longrightarrow> column (swapaxes n M) j = M ! j"
  by (intro nth_equalityI) (simp_all add: column_def swapaxes_def)

lemma matmul_swapaxes:
  assumes "\<forall>r\<in>set km. length r = D"
  shows "matmul (length km) qm (swapaxes D km) = map (\<lambda>qr. map (\<lambda>j. dot qr (km ! j)) [0..<length km]) qm"
  using assms by (simp add: matmul_def vecmat_def column_swapaxes_rect)

lemma shape4_index [simp]:
  "shape4 B H L D (map (\<lambda>b. map (\<lambda>h. map (\<lambda>i. map (f b h i) [0..<D]) [0..<L]) [0..<H]) [0..<B])"
  by (auto simp: shape4_def shape3_def)

lemma scaled_scores_index:
  assumes q: "shape3 B H Lq q" and k: "shape4 B H Lk D k"
  shows "map (map (map (map (\<lambda>a. a * scl))))
           (map2 (map2 (\<lambda>qm km. matmul (length km) qm (swapaxes D km))) q k)
       = map (\<lambda>b. map (\<lambda>h. map (\<lambda>i. map (\<lambda>j. dot (q ! b ! h ! i) (k ! b ! h ! j) * scl)
               [0..<Lk]) [0..<Lq]) [0..<H]) [0..<B]"
proof -
  note sq = shape3D[OF q]
  note sk = shape3D[OF shape4D(1)[OF k]] shape4D(2)[OF k]
  have rows: "\<forall>r\<in>set (k ! b ! h). length r = D" if "b < B" "h < H" for b h
    using sk that by (auto simp: in_set_conv_nth)
  have head: "map (map (\<lambda>a. a * scl)) (matmul (length (k ! b ! h)) (q ! b ! h) (swapaxes D (k ! b ! h)))
      = map (\<lambda>i. map (\<lambda>j. dot (q ! b ! h ! i) (k ! b ! h ! j) * scl) [0..<Lk]) [0..<Lq]"
    if "b < B" "h < H" for b h
    unfolding matmul_swapaxes[OF rows[OF that]] using sq(3)[OF that] sk(3)[OF that]
    by (intro nth_equalityI) simp_all
  have batch: "map (map (map (\<lambda>a. a * scl)))
        (map2 (\<lambda>qm km. matmul (length km) qm (swapaxes D km)) (q ! b) (k ! b))
      = map (\<lambda>h. map (\<lambda>i. map (\<lambda>j. dot (q ! b ! h ! i) (k ! b ! h ! j) * scl) [0..<Lk]) [0..<Lq]) [0..<H]"
    if "b < B" for b
    using sq(2)[OF that] sk(2)[OF that] head[OF that]
    by (intro nth_equalityI) simp_all
  show ?thesis
    using sq(1) sk(1) batch by (intro nth_equalityI) simp_all
qed

lemma scores_index:
  assumes q: "shape3 B H Lq q" and k: "shape4 B H Lk D k" and m: "mask_shape B H Lq Lk m"
  shows "attention_scores scl D q k m =
           map (\<lambda>b. map (\<lambda>h. map (\<lambda>i. map (\<lambda>j. dot (q ! b ! h ! i) (k ! b ! h ! j) * scl
                                                  + mask_at m b h i j)
               [0..<Lk]) [0..<Lq]) [0..<H]) [0..<B]"
  unfolding attention_scores_def Let_def scaled_scores_index[OF q k]
  by (subst add_mask_index[OF _ m]) (simp_all cong: map_cong)

lemma weights_index:
  assumes q: "shape3 B H Lq q" and k: "shape4 B H Lk D k" and m: "mask_shape B H Lq Lk m"
  shows "attention_weights scl D q k m =
           map (\<lambda>b. map (\<lambda>h. map (\<lambda>i. softmax (score_row scl q k m Lk b h i))
               [0..<Lq]) [0..<H]) [0..<B]"
  unfolding attention_weights_def scores_index[OF q k m] score_row_def
  by (simp add: comp_def)




text \<open>
  Claim C3, as stated, fails for a query whose keys are all masked: the maximum of the
  row is minus infinity, the differences are NaN, and so is every weight of the row.
\<close>

theorem fully_masked_row_is_nan:
  "attention_weights (Fin 1) 1 [[[[Fin 1]]]] [[[[Fin 1], [Fin 1]]]] [[[[NInf, NInf]]]]
     = [[[[NaN, NaN]]]] \<and>
   fsum [NaN, NaN] \<noteq> 1 \<and> NaN \<noteq> (0::fp)"
  by (simp add: arr_eval fp_eval eval_nat_numeral Let_def)

lemma init_scale:
  "(phi3_Attention_init cfg rngs = Inr a \<longrightarrow> p3_scale a = Fin (1 / sqrt (real (p3_head_dim a)))) \<and>
   (qwen3_Attention_init cfg rngs = Inr a' \<longrightarrow> q3_scale a' = Fin (1 / sqrt (real (q3_head_dim a'))))"
  by (auto simp: phi3_Attention_init_def qwen3_Attention_init_def floordiv_def pow_neg_half_def
      Let_def split: sum.splits if_splits)

text \<open>
  Claim C3, amended. The weights of a query row are the softmax, along the key axis, of
  the query-key dot products times the scale plus the mask entries, and the constructors
  set the scale to \<open>head_dim\<close> to the power -0.5. For every query row whose scaled dot
  products are finite and whose mask entries are finite or minus infinity, at least one of
  them finite, the weights sum to 1 and every key whose mask entry is minus infinity has
  weight exactly 0.
\<close>

theorem attention_weights_of_unmasked_row:
  assumes "shape3 B H Lq q" and "shape4 B H Lk D k" and "mask_shape B H Lq Lk m"
    and "b < B" and "h < H" and "i < Lq"
    and "\<forall>j<Lk. fin (dot (q ! b ! h ! i) (k ! b ! h ! j) * scl)"
    and "\<forall>j<Lk. fin (mask_at m b h i j) \<or> mask_at m b h i j = NInf"
    and "\<exists>j<Lk. fin (mask_at m b h i j)"
  shows "attention_weights scl D q k m ! b ! h ! i
           = softmax (map (\<lambda>j. dot (q ! b ! h ! i) (k ! b ! h ! j) * scl + mask_at m b h i j) [0..<Lk]) \<and>
         fsum (attention_weights scl D q k m ! b ! h ! i) = 1 \<and>
         (\<forall>j<Lk. mask_at m b h i j = NInf \<longrightarrow> attention_weights scl D q k m ! b ! h ! i ! j = 0) \<and>
         (phi3_Attention_init cfg rngs = Inr a \<longrightarrow> p3_scale a = Fin (1 / sqrt (real (p3_head_dim a)))) \<and>
         (qwen3_Attention_init cfg rngs = Inr a' \<longrightarrow> q3_scale a' = Fin (1 / sqrt (real (q3_head_dim a'))))"
proof -
  let ?row = "map (\<lambda>j. dot (q ! b ! h ! i) (k ! b ! h ! j) * scl + mask_at m b h i j) [0..<Lk]"
  have w: "attention_weights scl D q k m ! b ! h ! i = softmax ?row"
    unfolding weights_index[OF assms(1-3)] score_row_def using assms(4-6) by simp
  have a: "\<forall>x\<in>set ?row. fin x \<or> x = NInf"
  proof
    fix x assume "x \<in> set ?row"
    then obtain j where "j < Lk" "x = dot (q ! b ! h ! i) (k ! b ! h ! j) * scl + mask_at m b h i j"
      by auto
    then show "fin x \<or> x = NInf"
      using assms(7,8) by (cases "fin (mask_at m b h i j)") auto
  qed
  have e: "\<exists>x\<in>set ?row. fin x"
  proof -
    obtain j where j: "j < Lk" "fin (mask_at m b h i j)" using assms(9) by blast
    then have "fin (dot (q ! b ! h ! i) (k ! b ! h ! j) * scl + mask_at m b h i j)"
      using assms(7) by simp
    moreover have "dot (q ! b ! h ! i) (k ! b ! h ! j) * scl + mask_at m b h i j \<in> set ?row"
      using j(1) by auto
    ultimately show ?thesis by blast
  qed
  have z: "softmax ?row ! j = 0" if "j < Lk" "mask_at m b h i j = NInf" for j
    using that assms(7) by (intro softmax_masked_zero[OF a e]) simp_all
  show ?thesis
    unfolding w using softmax_sums_to_one[OF a e] z init_scale[of cfg rngs a a'] by blast
qed

theorem attention_weights_of_unmasked_row_witness:
  "shape3 1 1 1 [[[[Fin 1]]]] \<and> shape4 1 1 2 1 [[[[Fin 1], [Fin 1]]]] \<and>
   mask_shape 1 1 1 2 [[[[Fin 0, NInf]]]] \<and>
   mask_at [[[[Fin 0, NInf]]]] 0 0 0 0 = Fin 0 \<and> mask_at [[[[Fin 0, NInf]]]] 0 0 0 1 = NInf \<and>
   fsum (attention_weights (Fin 1) 1 [[[[Fin 1]]]] [[[[Fin 1], [Fin 1]]]] [[[[Fin 0, NInf]]]] ! 0 ! 0 ! 0) = 1 \<and>
   attention_weights (Fin 1) 1 [[[[Fin 1]]]] [[[[Fin 1], [Fin 1]]]] [[[[Fin 0, NInf]]]] ! 0 ! 0 ! 0 ! 1 = 0"
proof -
  have s: "shape3 1 1 1 [[[[Fin 1]]]]" "shape4 1 1 2 1 [[[[Fin 1], [Fin 1]]]]"
    "mask_shape 1 1 1 2 [[[[Fin 0, NInf]]]]"
    by (simp_all add: shape3_def shape4_def mask_shape_def)
  have m: "mask_at [[[[Fin 0, NInf]]]] 0 0 0 0 = Fin 0" "mask_at [[[[Fin 0, NInf]]]] 0 0 0 1 = NInf"
    by (simp_all add: mask_at_def bidx_def)
  have f: "\<forall>j<2. fin (dot ([[[[Fin 1]]]] ! 0 ! 0 ! 0) ([[[[Fin 1], [Fin 1]]]] ! 0 ! 0 ! j) * Fin 1)"
    by (simp add: less_Suc_eq numeral_2_eq_2 dot_def fsum_def zero_fp_def)
  have k: "\<forall>j<2. fin (mask_at [[[[Fin 0, NInf]]]] 0 0 0 j) \<or> mask_at [[[[Fin 0, NInf]]]] 0 0 0 j = NInf"
    using m by (simp add: less_Suc_eq numeral_2_eq_2)
  have e: "\<exists>j<2. fin (mask_at [[[[Fin 0, NInf]]]] 0 0 0 j)"
    using m by (intro exI[of _ 0]) simp
  have z: "(0::nat) < 1" by simp
  note t = attention_weights_of_unmasked_row[OF s z z z f k e, where cfg = ex_config
      and rngs = ex_rngs and a = ex_phi3_attn and a' = ex_qwen3_attn]
  have "fsum (attention_weights (Fin 1) 1 [[[[Fin 1]]]] [[[[Fin 1], [Fin 1]]]]
      [[[[Fin 0, NInf]]]] ! 0 ! 0 ! 0) = 1"
    by (rule t[THEN conjunct2, THEN conjunct1])
  moreover have "attention_weights (Fin 1) 1 [[[[Fin 1]]]] [[[[Fin 1], [Fin 1]]]]
      [[[[Fin 0, NInf]]]] ! 0 ! 0 ! 0 ! 1 = 0"
    using t[THEN conjunct2, THEN conjunct2, THEN conjunct1, rule_format, of 1] m(2) by simp
  ultimately show ?thesis
    using s m by simp
qed

section \<open>Cached decoding against full-sequence attention\<close>

subsection \<open>One decode step of the shared part\<close>

















subsection \<open>Queries, keys and values position by position\<close>











subsection \<open>Shapes and finiteness\<close>
























subsection \<open>The decode loop\<close>












end
